theory Spec2Isabelle
  imports Main
begin

section \<open>Values and documents\<close>

text \<open>
  The service of \<^verbatim>\<open>main.py\<close> moves MongoDB documents between the store and JSON
  responses. A document is a Python \<^verbatim>\<open>dict\<close> from field names to values; the values
  the handlers can meet are the BSON ones. A \<^verbatim>\<open>dict\<close> keeps its keys in insertion
  order and holds each key once, so it is an association list whose keys are distinct
  (\<open>is_dict\<close> below).

  A Python \<^verbatim>\<open>str\<close> is a \<open>string\<close>, one \<open>char\<close> for each character.
\<close>

datatype objectid = Oid "nat list"

datatype datetime = Datetime nat nat nat nat nat nat nat

datatype pyval =
    PNone
  | PBool bool
  | PInt int
  | PStr string
  | PObjectId objectid
  | PDatetime datetime
  | PList "pyval list"
  | PDict "(string \<times> pyval) list"

type_synonym document = "(string \<times> pyval) list"

definition is_dict :: "document \<Rightarrow> bool" where
  "is_dict d = distinct (map fst d)"

text \<open>\<^verbatim>\<open>k in d\<close>\<close>

definition contains :: "document \<Rightarrow> string \<Rightarrow> bool" where
  "contains d k = (k \<in> set (map fst d))"

text \<open>\<^verbatim>\<open>d.get(k, dflt)\<close>; \<^verbatim>\<open>d.get(k)\<close> is \<open>get d k PNone\<close>.\<close>

definition get :: "document \<Rightarrow> string \<Rightarrow> pyval \<Rightarrow> pyval" where
  "get d k dflt = (case map_of d k of None \<Rightarrow> dflt | Some v \<Rightarrow> v)"

text \<open>\<^verbatim>\<open>d[k] = v\<close>: a key that is present keeps its place, a new key goes last.\<close>

fun setitem :: "document \<Rightarrow> string \<Rightarrow> pyval \<Rightarrow> document" where
  "setitem [] k v = [(k, v)]"
| "setitem ((k', v') # d) k v =
     (if k' = k then (k, v) # d else (k', v') # setitem d k v)"

text \<open>
  \<^verbatim>\<open>d.pop(k)\<close> for a key that is present (the only use in the source is guarded by
  \<^verbatim>\<open>"_id" in d\<close>): the value removed and the dictionary left.
\<close>

definition pop :: "document \<Rightarrow> string \<Rightarrow> pyval \<times> document" where
  "pop d k = (get d k PNone, filter (\<lambda>kv. fst kv \<noteq> k) d)"

subsection \<open>Library functions the source calls\<close>

text \<open>
  \<^verbatim>\<open>str\<close>, \<^verbatim>\<open>datetime.isoformat\<close>, \<^verbatim>\<open>ObjectId.is_valid\<close> and the constructor
  \<^verbatim>\<open>ObjectId\<close> belong to Python and to the \<^verbatim>\<open>bson\<close> package, not to this
  repository. They are parameters of the model, and every result below holds for whatever
  they compute.
\<close>

record pylib =
  str :: "pyval \<Rightarrow> string"
  isoformat :: "datetime \<Rightarrow> string"
  is_valid :: "string \<Rightarrow> bool"
  ObjectId :: "string \<Rightarrow> objectid"

section \<open>The normalizer\<close>

text \<open>
  \<^verbatim>\<open>
  def _normalize(doc):
      if not doc:
          return doc
      d = dict(doc)
      if "_id" in d:
          d["id"] = str(d.pop("_id"))
      for k, v in list(d.items()):
          if isinstance(v, datetime):
              d[k] = v.isoformat()
      return d
  \<close>
  The loop runs over a snapshot of the items of \<open>d\<close> and assigns into \<open>d\<close>.
\<close>

fun normalize_loop :: "pylib \<Rightarrow> (string \<times> pyval) list \<Rightarrow> document \<Rightarrow> document" where
  "normalize_loop L [] d = d"
| "normalize_loop L ((k, v) # items) d =
     normalize_loop L items
       (case v of PDatetime t \<Rightarrow> setitem d k (PStr (isoformat L t)) | _ \<Rightarrow> d)"

definition normalize_doc :: "pylib \<Rightarrow> document \<Rightarrow> document" where
  "normalize_doc L doc =
     (if doc = [] then doc
      else
        let d = doc;
            d = (if contains d ''_id''
                 then (case pop d ''_id'' of (v, d') \<Rightarrow> setitem d' ''id'' (PStr (str L v)))
                 else d)
        in normalize_loop L d d)"

subsection \<open>The normalizer on references\<close>

text \<open>
  Whether the caller's dictionary is changed depends on which object each statement
  writes to. Here the dictionaries live in a heap, a reference is an index into it (or
  \<^verbatim>\<open>None\<close>), \<^verbatim>\<open>dict(doc)\<close> allocates a new object holding the items of \<open>doc\<close>, and
  every assignment is a write at the address of \<open>d\<close>. The values inside the items are
  shared by the copy and never written by the function.
\<close>

type_synonym heap = "document list"

definition h_setitem :: "heap \<Rightarrow> nat \<Rightarrow> string \<Rightarrow> pyval \<Rightarrow> heap" where
  "h_setitem h a k v = h[a := setitem (h ! a) k v]"

definition h_pop :: "heap \<Rightarrow> nat \<Rightarrow> string \<Rightarrow> pyval \<times> heap" where
  "h_pop h a k = (case pop (h ! a) k of (v, d') \<Rightarrow> (v, h[a := d']))"

fun normalize_loop_ref :: "pylib \<Rightarrow> (string \<times> pyval) list \<Rightarrow> nat \<Rightarrow> heap \<Rightarrow> heap" where
  "normalize_loop_ref L [] d h = h"
| "normalize_loop_ref L ((k, v) # items) d h =
     normalize_loop_ref L items d
       (case v of PDatetime t \<Rightarrow> h_setitem h d k (PStr (isoformat L t)) | _ \<Rightarrow> h)"

definition normalize_ref :: "pylib \<Rightarrow> nat option \<Rightarrow> heap \<Rightarrow> nat option \<times> heap" where
  "normalize_ref L doc h =
     (case doc of
        None \<Rightarrow> (doc, h)
      | Some a \<Rightarrow>
          if h ! a = [] then (doc, h)
          else
            let d = length h;
                h = h @ [h ! a];
                h = (if contains (h ! d) ''_id''
                     then (case h_pop h d ''_id'' of
                             (v, h') \<Rightarrow> h_setitem h' d ''id'' (PStr (str L v)))
                     else h)
            in (Some d, normalize_loop_ref L (h ! d) d h))"

section \<open>The store\<close>

text \<open>
  A Python exception that leaves a handler is either FastAPI's
  \<^verbatim>\<open>HTTPException(status_code, detail)\<close>, which becomes the response with that status,
  or any other exception, known by its message \<^verbatim>\<open>str(e)\<close>.
\<close>

datatype exn = HTTPException nat string | Exception string

text \<open>
  \<^verbatim>\<open>db\<close> is a pymongo database handle, or \<^verbatim>\<open>None\<close> when no store is configured. The store
  is outside the repository: its operations are parameters. Each one takes the state of
  the store and returns the new one, with either the result or, when the call raises, the
  message of the exception (the store knows nothing of FastAPI and raises no
  \<^verbatim>\<open>HTTPException\<close>). \<open>find_one\<close> and \<open>delete_one\<close> take the collection name and the
  filter; \<open>delete_one\<close> returns \<^verbatim>\<open>deleted_count\<close>.
\<close>

record 's database =
  list_collection_names :: "'s \<Rightarrow> (string + string list) \<times> 's"
  find_one :: "string \<Rightarrow> document \<Rightarrow> 's \<Rightarrow> (string + document option) \<times> 's"
  delete_one :: "string \<Rightarrow> document \<Rightarrow> 's \<Rightarrow> (string + nat) \<times> 's"

text \<open>
  Modelled from the spec: \<^verbatim>\<open>schemas.Post\<close>, the request body of \<^verbatim>\<open>POST /api/posts\<close>, is
  not among the sources. Section 3 of the specification gives its fields.
\<close>

record post =
  title :: string
  region :: string
  excerpt :: string
  date :: "pyval option"
  tags :: "string list"
  content :: "pyval list"

text \<open>
  Modelled from the spec: the module \<^verbatim>\<open>database\<close> is not among the sources. It exports the
  handle \<^verbatim>\<open>db\<close> and two functions: \<^verbatim>\<open>create_document(collection, document)\<close>, which
  persists the document and returns its new identifier as a string, and
  \<^verbatim>\<open>get_documents(collection, filter, limit)\<close>, which returns the documents found. Both can
  fail with an exception. They are parameters as well.
\<close>

record 's database_module =
  db :: "'s database option"
  create_document :: "string \<Rightarrow> post \<Rightarrow> 's \<Rightarrow> (string + string) \<times> 's"
  get_documents :: "string \<Rightarrow> document \<Rightarrow> int \<Rightarrow> 's \<Rightarrow> (string + document list) \<times> 's"

section \<open>The handlers\<close>

text \<open>
  A handler returns the body of the 200 response (\<open>Inr\<close>) or raises (\<open>Inl\<close>). It takes
  the module \<open>M\<close> it imports \<^verbatim>\<open>db\<close>, \<^verbatim>\<open>create_document\<close> and \<^verbatim>\<open>get_documents\<close> from, the
  library \<open>L\<close> where it calls it, and the state of the store.
\<close>

subsection \<open>\<^verbatim>\<open>GET /test\<close>\<close>

text \<open>
  The three pictographs of the status texts are not characters of type \<open>char\<close>; they
  stand here as their UTF-8 bytes.
\<close>

definition check_mark :: string where
  "check_mark = [CHR 0xE2, CHR 0x9C, CHR 0x85]"

definition cross_mark :: string where
  "cross_mark = [CHR 0xE2, CHR 0x9D, CHR 0x8C]"

definition warning_sign :: string where
  "warning_sign = [CHR 0xE2, CHR 0x9A, CHR 0xA0, CHR 0xEF, CHR 0xB8, CHR 0x8F]"

text \<open>
  \<^verbatim>\<open>
  status = {"backend": "... Running", "database": "... Not Available", "collections": []}
  try:
      if db is not None:
          status["database"] = "... Connected"
          try:
              status["collections"] = db.list_collection_names()[:10]
          except Exception as e:
              status["database"] = f"... Connected but error: {str(e)[:80]}"
      else:
          status["database"] = "... Not Configured"
  except Exception as e:
      status["database"] = f"... Error: {str(e)[:80]}"
  return status
  \<close>
  The only call that can raise is \<^verbatim>\<open>list_collection_names\<close>, inside the inner
  \<^verbatim>\<open>try\<close>; nothing reaches the outer handler.
\<close>

definition test_database :: "'s database_module \<Rightarrow> 's \<Rightarrow> (exn + document) \<times> 's" where
  "test_database M s =
     (let status = [(''backend'', PStr (check_mark @ '' Running'')),
                    (''database'', PStr (cross_mark @ '' Not Available'')),
                    (''collections'', PList [])]
      in case db M of
           Some d \<Rightarrow>
             (let status = setitem status ''database'' (PStr (check_mark @ '' Connected''))
              in case list_collection_names d s of
                   (Inr names, s') \<Rightarrow>
                     (Inr (setitem status ''collections'' (PList (map PStr (take 10 names)))), s')
                 | (Inl e, s') \<Rightarrow>
                     (Inr (setitem status ''database''
                        (PStr (warning_sign @ '' Connected but error: '' @ take 80 e))), s'))
         | None \<Rightarrow>
             (Inr (setitem status ''database'' (PStr (cross_mark @ '' Not Configured''))), s))"

subsection \<open>\<^verbatim>\<open>GET /api/posts\<close>\<close>

text \<open>
  \<^verbatim>\<open>
  filter_dict = {}
  if q:
      regex = {"$regex": q, "$options": "i"}
      filter_dict = {"$or": [{"title": regex}, {"region": regex},
                             {"excerpt": regex}, {"tags": regex}]}
  \<close>
\<close>

definition filter_dict :: "string option \<Rightarrow> document" where
  "filter_dict q =
     (case q of
        None \<Rightarrow> []
      | Some t \<Rightarrow>
          if t = [] then []
          else
            let regex = PDict [(''$regex'', PStr t), (''$options'', PStr ''i'')]
            in [(''$or'', PList [PDict [(''title'', regex)],
                                 PDict [(''region'', regex)],
                                 PDict [(''excerpt'', regex)],
                                 PDict [(''tags'', regex)]])])"

text \<open>The dictionary appended for one normalized document \<open>nd\<close>.\<close>

definition post_like :: "document \<Rightarrow> document" where
  "post_like nd =
     [(''title'', get nd ''title'' (PStr [])),
      (''region'', get nd ''region'' (PStr [])),
      (''excerpt'', get nd ''excerpt'' (PStr [])),
      (''date'', get nd ''date'' PNone),
      (''tags'', get nd ''tags'' (PList [])),
      (''content'', get nd ''content'' (PList []))]"

text \<open>
  \<^verbatim>\<open>
  normalized = []
  for doc in docs:
      nd = _normalize(doc)
      normalized.append({"title": nd.get("title", ""), "region": nd.get("region", ""),
                         "excerpt": nd.get("excerpt", ""), "date": nd.get("date"),
                         "tags": nd.get("tags", []), "content": nd.get("content", [])})
  return normalized
  \<close>
\<close>

fun list_posts_loop :: "pylib \<Rightarrow> document list \<Rightarrow> document list \<Rightarrow> document list" where
  "list_posts_loop L [] normalized = normalized"
| "list_posts_loop L (doc # docs) normalized =
     list_posts_loop L docs (normalized @ [post_like (normalize_doc L doc)])"

text \<open>
  \<^verbatim>\<open>get_documents\<close> is called outside any \<^verbatim>\<open>try\<close>: an exception of the store leaves the
  handler as it is.
\<close>

definition list_posts ::
  "pylib \<Rightarrow> 's database_module \<Rightarrow> string option \<Rightarrow> int \<Rightarrow> 's \<Rightarrow> (exn + document list) \<times> 's" where
  "list_posts L M q limit s =
     (case get_documents M ''post'' (filter_dict q) limit s of
        (Inl e, s') \<Rightarrow> (Inl (Exception e), s')
      | (Inr docs, s') \<Rightarrow> (Inr (list_posts_loop L docs []), s'))"

subsection \<open>\<^verbatim>\<open>POST /api/posts\<close>\<close>

text \<open>
  \<^verbatim>\<open>
  try:
      inserted_id = create_document("post", post)
      return {"id": inserted_id}
  except Exception as e:
      raise HTTPException(status_code=500, detail=str(e))
  \<close>
\<close>

definition create_post :: "'s database_module \<Rightarrow> post \<Rightarrow> 's \<Rightarrow> (exn + document) \<times> 's" where
  "create_post M p s =
     (case create_document M ''post'' p s of
        (Inr inserted_id, s') \<Rightarrow> (Inr [(''id'', PStr inserted_id)], s')
      | (Inl e, s') \<Rightarrow> (Inl (HTTPException 500 e), s'))"

subsection \<open>\<^verbatim>\<open>GET /api/posts/{post_id}\<close>\<close>

text \<open>
  \<^verbatim>\<open>
  try:
      if not ObjectId.is_valid(post_id):
          raise HTTPException(status_code=400, detail="Invalid id")
      doc = db["post"].find_one({"_id": ObjectId(post_id)})
      if not doc:
          raise HTTPException(status_code=404, detail="Not found")
      return _normalize(doc)
  except HTTPException:
      raise
  except Exception as e:
      raise HTTPException(status_code=500, detail=str(e))
  \<close>
  With \<^verbatim>\<open>db\<close> being \<^verbatim>\<open>None\<close>, \<^verbatim>\<open>db["post"]\<close> raises a \<^verbatim>\<open>TypeError\<close>, which the last clause
  turns into a 500.
\<close>

definition none_not_subscriptable :: string where
  "none_not_subscriptable =
     [CHR 0x27] @ ''NoneType'' @ [CHR 0x27] @ '' object is not subscriptable''"

definition get_post ::
  "pylib \<Rightarrow> 's database_module \<Rightarrow> string \<Rightarrow> 's \<Rightarrow> (exn + document) \<times> 's" where
  "get_post L M post_id s =
     (if \<not> is_valid L post_id then (Inl (HTTPException 400 ''Invalid id''), s)
      else
        case db M of
          None \<Rightarrow> (Inl (HTTPException 500 none_not_subscriptable), s)
        | Some d \<Rightarrow>
            (case find_one d ''post'' [(''_id'', PObjectId (ObjectId L post_id))] s of
               (Inl e, s') \<Rightarrow> (Inl (HTTPException 500 e), s')
             | (Inr None, s') \<Rightarrow> (Inl (HTTPException 404 ''Not found''), s')
             | (Inr (Some doc), s') \<Rightarrow>
                 if doc = [] then (Inl (HTTPException 404 ''Not found''), s')
                 else (Inr (normalize_doc L doc), s')))"

subsection \<open>\<^verbatim>\<open>DELETE /api/posts/{post_id}\<close>\<close>

text \<open>
  \<^verbatim>\<open>
  try:
      if not ObjectId.is_valid(post_id):
          raise HTTPException(status_code=400, detail="Invalid id")
      res = db["post"].delete_one({"_id": ObjectId(post_id)})
      if res.deleted_count == 0:
          raise HTTPException(status_code=404, detail="Not found")
      return {"status": "deleted"}
  except HTTPException:
      raise
  except Exception as e:
      raise HTTPException(status_code=500, detail=str(e))
  \<close>
\<close>

definition delete_post ::
  "pylib \<Rightarrow> 's database_module \<Rightarrow> string \<Rightarrow> 's \<Rightarrow> (exn + document) \<times> 's" where
  "delete_post L M post_id s =
     (if \<not> is_valid L post_id then (Inl (HTTPException 400 ''Invalid id''), s)
      else
        case db M of
          None \<Rightarrow> (Inl (HTTPException 500 none_not_subscriptable), s)
        | Some d \<Rightarrow>
            (case delete_one d ''post'' [(''_id'', PObjectId (ObjectId L post_id))] s of
               (Inl e, s') \<Rightarrow> (Inl (HTTPException 500 e), s')
             | (Inr deleted_count, s') \<Rightarrow>
                 if deleted_count = 0 then (Inl (HTTPException 404 ''Not found''), s')
                 else (Inr [(''status'', PStr ''deleted'')], s')))"

text \<open>
  The status of the response: 200 for a body, the status of an \<^verbatim>\<open>HTTPException\<close>, and
  FastAPI's 500 for any other exception.
\<close>

fun status_code :: "exn + 'a \<Rightarrow> nat" where
  "status_code (Inr body) = 200"
| "status_code (Inl (HTTPException c d)) = c"
| "status_code (Inl (Exception m)) = 500"

section \<open>What a search filter matches\<close>















section \<open>An instance for the examples\<close>

text \<open>
  One library and three stores, on which the results are run. The library renders the
  twelve bytes of an identifier in hexadecimal and accepts the 24-digit hexadecimal
  strings; its \<open>str\<close> covers the values the examples convert.
\<close>

definition hexdigit :: "nat \<Rightarrow> char" where
  "hexdigit n = ''0123456789abcdef'' ! n"

definition hexlify :: "nat list \<Rightarrow> string" where
  "hexlify bs = concat (map (\<lambda>b. [hexdigit (b div 16), hexdigit (b mod 16)]) bs)"

definition hexval :: "char \<Rightarrow> nat option" where
  "hexval c =
     (let n = (of_char c :: nat)
      in if 48 \<le> n \<and> n \<le> 57 then Some (n - 48)
         else if 97 \<le> n \<and> n \<le> 102 then Some (n - 87)
         else if 65 \<le> n \<and> n \<le> 70 then Some (n - 55)
         else None)"

fun unhexlify :: "string \<Rightarrow> nat list" where
  "unhexlify (a # b # cs) =
     (16 * (case hexval a of Some n \<Rightarrow> n | None \<Rightarrow> 0)
      + (case hexval b of Some n \<Rightarrow> n | None \<Rightarrow> 0)) # unhexlify cs"
| "unhexlify cs = []"

definition two_digits :: "nat \<Rightarrow> string" where
  "two_digits n = [hexdigit (n div 10 mod 10), hexdigit (n mod 10)]"

fun py_isoformat :: "datetime \<Rightarrow> string" where
  "py_isoformat (Datetime y mo d h mi s us) =
     two_digits (y div 100) @ two_digits y @ ''-'' @ two_digits mo @ ''-'' @ two_digits d
     @ ''T'' @ two_digits h @ '':'' @ two_digits mi @ '':'' @ two_digits s
     @ (if us = 0 then []
        else ''.'' @ two_digits (us div 10000) @ two_digits (us div 100) @ two_digits us)"

fun py_str :: "pyval \<Rightarrow> string" where
  "py_str (PStr s) = s"
| "py_str (PObjectId (Oid bs)) = hexlify bs"
| "py_str PNone = ''None''"
| "py_str (PBool b) = (if b then ''True'' else ''False'')"
| "py_str v = []"

definition py :: pylib where
  "py = \<lparr> str = py_str,
          isoformat = py_isoformat,
          is_valid = (\<lambda>s. length s = 24 \<and> list_all (\<lambda>c. hexval c \<noteq> None) s),
          ObjectId = (\<lambda>s. Oid (unhexlify s)) \<rparr>"

text \<open>
  The first store keeps the collection \<^verbatim>\<open>post\<close> in memory and counts the calls it
  receives. A filter matches a document that holds each of its items, which is what the
  filters \<^verbatim>\<open>{}\<close> and \<^verbatim>\<open>{"_id": ...}\<close> mean.
\<close>

definition matches :: "document \<Rightarrow> document \<Rightarrow> bool" where
  "matches f d = list_all (\<lambda>kv. map_of d (fst kv) = Some (snd kv)) f"

definition post_document :: "nat \<Rightarrow> post \<Rightarrow> document" where
  "post_document n p =
     [(''_id'', PObjectId (Oid ([0, 0, 0, 0, 0, 0, 0, 0, 0, 0, 0, n]))),
      (''title'', PStr (title p)),
      (''region'', PStr (region p)),
      (''excerpt'', PStr (excerpt p)),
      (''date'', (case date p of None \<Rightarrow> PNone | Some v \<Rightarrow> v)),
      (''tags'', PList (map PStr (tags p))),
      (''content'', PList (content p))]"

definition mem_db :: "(document list \<times> nat) database" where
  "mem_db =
     \<lparr> list_collection_names = (\<lambda>(ds, n). (Inr [''post''], (ds, Suc n))),
       find_one = (\<lambda>c f (ds, n). (Inr (find (matches f) ds), (ds, Suc n))),
       delete_one = (\<lambda>c f (ds, n).
         (case find (matches f) ds of
            None \<Rightarrow> (Inr 0, (ds, Suc n))
          | Some d \<Rightarrow> (Inr 1, (remove1 d ds, Suc n)))) \<rparr>"

definition mem :: "(document list \<times> nat) database_module" where
  "mem =
     \<lparr> db = Some mem_db,
       create_document = (\<lambda>c p (ds, n).
         (Inr (hexlify ([0, 0, 0, 0, 0, 0, 0, 0, 0, 0, 0, n])), (ds @ [post_document n p], Suc n))),
       get_documents = (\<lambda>c f limit (ds, n).
         (Inr (take (nat limit) (filter (matches f) ds)), (ds, Suc n))) \<rparr>"

text \<open>The second store is unreachable: every call raises.\<close>

definition down_db :: "(document list \<times> nat) database" where
  "down_db =
     \<lparr> list_collection_names = (\<lambda>(ds, n). (Inl ''connection refused'', (ds, Suc n))),
       find_one = (\<lambda>c f (ds, n). (Inl ''connection refused'', (ds, Suc n))),
       delete_one = (\<lambda>c f (ds, n). (Inl ''connection refused'', (ds, Suc n))) \<rparr>"

definition down :: "(document list \<times> nat) database_module" where
  "down =
     \<lparr> db = Some down_db,
       create_document = (\<lambda>c p (ds, n). (Inl ''connection refused'', (ds, Suc n))),
       get_documents = (\<lambda>c f limit (ds, n). (Inl ''connection refused'', (ds, Suc n))) \<rparr>"

text \<open>The third is the module with no store configured.\<close>

definition unconfigured :: "(document list \<times> nat) database_module" where
  "unconfigured =
     \<lparr> db = None,
       create_document = (\<lambda>c p s. (Inl ''Database not available'', s)),
       get_documents = (\<lambda>c f limit s. (Inl ''Database not available'', s)) \<rparr>"

text \<open>Two stored documents and an identifier.\<close>

definition oid1 :: objectid where
  "oid1 = Oid [101, 241, 162, 179, 196, 213, 230, 247, 8, 9, 26, 43]"

definition hex1 :: string where
  "hex1 = ''65f1a2b3c4d5e6f708091a2b''"

definition doc1 :: document where
  "doc1 =
     [(''_id'', PObjectId oid1),
      (''title'', PStr ''Global Markets Shift''),
      (''region'', PStr ''Europe''),
      (''created_at'', PDatetime (Datetime 2024 3 9 14 5 0 0)),
      (''content'', PList [PDict [(''at'', PDatetime (Datetime 2024 3 9 14 5 0 0))]])]"

definition doc2 :: document where
  "doc2 =
     [(''id'', PInt 7),
      (''_id'', PObjectId oid1),
      (''date'', PDatetime (Datetime 2023 12 31 23 59 58 0))]"


text \<open>A document with a sub-document that has a key \<^verbatim>\<open>_id\<close> of its own.\<close>

definition doc3 :: document where
  "doc3 =
     [(''_id'', PObjectId oid1),
      (''content'', PList [PDict [(''_id'', PInt 1), (''text'', PStr ''p'')]])]"

section \<open>Notions for the statements\<close>

text \<open>
  What the loop of the normalizer leaves in a field that held \<open>v\<close>: the ISO string of a
  timestamp, and any other value itself, whatever is inside it.
\<close>

definition rendered :: "pylib \<Rightarrow> pyval \<Rightarrow> pyval" where
  "rendered L v = (case v of PDatetime t \<Rightarrow> PStr (isoformat L t) | _ \<Rightarrow> v)"

text \<open>
  What a response shows for the field \<open>k\<close> of a stored document when \<open>dflt\<close> stands in for
  a missing field.
\<close>

definition stored_field :: "pylib \<Rightarrow> document \<Rightarrow> string \<Rightarrow> pyval \<Rightarrow> pyval" where
  "stored_field L doc k dflt = (case map_of doc k of None \<Rightarrow> dflt | Some v \<Rightarrow> rendered L v)"

section \<open>Dictionaries\<close>

lemma map_of_setitem: "map_of (setitem d k v) = (map_of d)(k \<mapsto> v)"
  by (induction d) (auto simp: fun_eq_iff)

lemma keys_setitem:
  "map fst (setitem d k v) = (if k \<in> set (map fst d) then map fst d else map fst d @ [k])"
  by (induction d) (force+)

lemma setitem_present:
  "distinct (map fst d) \<Longrightarrow> k \<in> set (map fst d) \<Longrightarrow>
     setitem d k v = map (\<lambda>kv. if fst kv = k then (k, v) else kv) d"
proof (induction d)
  case Nil
  then show ?case by simp
next
  case (Cons p d)
  show ?case
  proof (cases "fst p = k")
    case True
    with Cons.prems have "k \<notin> set (map fst d)" by auto
    then have "map (\<lambda>kv. if fst kv = k then (k, v) else kv) d = d"
      by (induction d) auto
    with True show ?thesis by (cases p) simp
  next
    case False
    with Cons show ?thesis by (cases p) auto
  qed
qed

lemma map_of_pop: "map_of (snd (pop d k)) = (map_of d)(k := None)"
  by (induction d) (auto simp: pop_def fun_eq_iff)

lemma keys_pop: "map fst (snd (pop d k)) = filter (\<lambda>x. x \<noteq> k) (map fst d)"
  by (induction d) (auto simp: pop_def)

lemma normalize_loop_map:
  "distinct (map fst d) \<Longrightarrow> distinct (map fst items) \<Longrightarrow> set (map fst items) \<subseteq> set (map fst d) \<Longrightarrow>
     normalize_loop L items d =
       map (\<lambda>kv. (fst kv, case map_of items (fst kv) of
                             Some (PDatetime t) \<Rightarrow> PStr (isoformat L t)
                           | _ \<Rightarrow> snd kv)) d"
proof (induction items arbitrary: d)
  case Nil
  then show ?case by simp
next
  case (Cons p items)
  obtain k v where p: "p = (k, v)" by (cases p)
  from Cons.prems p have k: "k \<in> set (map fst d)" "k \<notin> set (map fst items)" by auto
  then have none: "map_of items k = None" by (simp add: map_of_eq_None_iff)
  show ?case
  proof (cases "\<exists>t. v = PDatetime t")
    case True
    then obtain t where v: "v = PDatetime t" by blast
    let ?d = "setitem d k (PStr (isoformat L t))"
    have d': "distinct (map fst ?d)" "set (map fst items) \<subseteq> set (map fst ?d)"
      using Cons.prems k by (auto simp: keys_setitem)
    have "normalize_loop L items ?d = map (\<lambda>kv. (fst kv, case map_of items (fst kv) of
                             Some (PDatetime t) \<Rightarrow> PStr (isoformat L t)
                           | _ \<Rightarrow> snd kv)) ?d"
      using Cons.IH[OF d'(1) _ d'(2)] Cons.prems by simp
    then show ?thesis
      using p v none Cons.prems(1) k(1)
      by (auto simp: setitem_present)
  next
    case False
    then have "normalize_loop L (p # items) d = normalize_loop L items d"
      using p by (cases v) auto
    moreover have "normalize_loop L items d = map (\<lambda>kv. (fst kv, case map_of items (fst kv) of
                             Some (PDatetime t) \<Rightarrow> PStr (isoformat L t)
                           | _ \<Rightarrow> snd kv)) d"
      using Cons.IH[of d] Cons.prems by simp
    ultimately show ?thesis
      using p False none by (cases v) (auto)
  qed
qed


lemma normalize_loop_self:
  assumes "distinct (map fst d)"
  shows "normalize_loop L d d = map (\<lambda>kv. (fst kv, rendered L (snd kv))) d"
proof -
  have "normalize_loop L d d =
       map (\<lambda>kv. (fst kv, case map_of d (fst kv) of
                             Some (PDatetime t) \<Rightarrow> PStr (isoformat L t)
                           | _ \<Rightarrow> snd kv)) d"
    using assms by (intro normalize_loop_map) auto
  also have "\<dots> = map (\<lambda>kv. (fst kv, rendered L (snd kv))) d"
  proof (rule map_cong[OF refl])
    fix kv assume "kv \<in> set d"
    then have "map_of d (fst kv) = Some (snd kv)"
      using assms map_of_is_SomeI[of d "fst kv" "snd kv"] by simp
    then show "(fst kv, case map_of d (fst kv) of
                             Some (PDatetime t) \<Rightarrow> PStr (isoformat L t)
                           | _ \<Rightarrow> snd kv) = (fst kv, rendered L (snd kv))"
      by (cases "snd kv") (auto simp: rendered_def)
  qed
  finally show ?thesis .
qed

lemma is_dict_renamed:
  "is_dict d \<Longrightarrow> is_dict (setitem (snd (pop d k)) k' v)"
  by (auto simp: is_dict_def keys_setitem keys_pop)

lemma normalize_closed:
  assumes "is_dict doc"
  shows "normalize_doc L doc =
           map (\<lambda>kv. (fst kv, rendered L (snd kv)))
             (if contains doc ''_id''
              then setitem (snd (pop doc ''_id'')) ''id'' (PStr (str L (get doc ''_id'' PNone)))
              else doc)"
proof (cases "doc = []")
  case True
  then show ?thesis by (simp add: normalize_doc_def contains_def)
next
  case False
  show ?thesis
  proof (cases "contains doc ''_id''")
    case True
    have "is_dict (setitem (snd (pop doc ''_id'')) ''id'' (PStr (str L (get doc ''_id'' PNone))))"
      using assms by (rule is_dict_renamed)
    then show ?thesis
      using False True by (simp add: normalize_doc_def pop_def normalize_loop_self is_dict_def)
  next
    case False
    then show ?thesis
      using \<open>doc \<noteq> []\<close> assms by (simp add: normalize_doc_def normalize_loop_self is_dict_def)
  qed
qed

section \<open>What the normalizer computes\<close>

lemma map_of_map_snd:
  "map_of (map (\<lambda>kv. (fst kv, f (snd kv))) d) k = map_option f (map_of d k)"
  by (induction d) auto

lemma contains_map_of: "contains d k \<longleftrightarrow> map_of d k \<noteq> None"
  by (simp add: contains_def map_of_eq_None_iff)

lemma normalize_doc_lookup:
  assumes "is_dict doc" and "k \<noteq> ''_id''" and "k = ''id'' \<longrightarrow> \<not> contains doc ''_id''"
  shows "map_of (normalize_doc L doc) k =
           map_option (rendered L) (map_of doc k)"
  using assms(2,3)
  by (auto simp: normalize_closed[OF assms(1)] map_of_map_snd map_of_setitem map_of_pop)

lemma rendered_PStr: "rendered L (PStr x) = PStr x"
  by (simp add: rendered_def)

lemma normalize_doc_id:
  assumes "is_dict doc" and "map_of doc ''_id'' = Some v"
  shows "map_of (normalize_doc L doc) ''id'' = Some (PStr (str L v))"
  using assms(2)
  by (simp add: normalize_closed[OF assms(1)] map_of_map_snd map_of_setitem contains_map_of get_def rendered_PStr)

lemma keys_normalize_doc:
  assumes "is_dict doc"
  shows "map fst (normalize_doc L doc) =
           (if contains doc ''_id''
            then map fst (setitem (snd (pop doc ''_id'')) ''id'' PNone)
            else map fst doc)"
  by (simp add: normalize_closed[OF assms] o_def keys_setitem)

lemma is_dict_normalize_doc: "is_dict doc \<Longrightarrow> is_dict (normalize_doc L doc)"
  using is_dict_renamed[of doc "''_id''" "''id''" PNone]
  by (simp add: is_dict_def[of "normalize_doc L doc"] keys_normalize_doc) (simp add: is_dict_def)

lemma no_reserved_key: "is_dict doc \<Longrightarrow> \<not> contains (normalize_doc L doc) ''_id''"
  by (auto simp: contains_def[of "normalize_doc L doc"] keys_normalize_doc keys_setitem keys_pop contains_def)

lemma count_key:
  "distinct (map fst d) \<Longrightarrow> k \<in> set (map fst d) \<Longrightarrow> length (filter (\<lambda>kv. fst kv = k) d) = 1"
proof (induction d)
  case Nil
  then show ?case by simp
next
  case (Cons p d)
  have "k \<notin> set (map fst d) \<Longrightarrow> filter (\<lambda>kv. fst kv = k) d = []"
    by (induction d) auto
  with Cons show ?case by auto
qed

lemma list_posts_loop_map:
  "list_posts_loop L docs acc = acc @ map (\<lambda>doc. post_like (normalize_doc L doc)) docs"
  by (induction docs arbitrary: acc) auto

lemma keys_post_like:
  "map fst (post_like nd) = [''title'', ''region'', ''excerpt'', ''date'', ''tags'', ''content'']"
  by (simp add: post_like_def)

section \<open>What the handlers return\<close>

lemma list_posts_body:
  "fst (list_posts L M q limit s) = Inr body \<Longrightarrow>
     \<exists>docs. body = map (\<lambda>doc. post_like (normalize_doc L doc)) docs"
  by (auto simp: list_posts_def list_posts_loop_map split: prod.splits sum.splits)

lemma get_post_body:
  "fst (get_post L M post_id s) = Inr body \<Longrightarrow>
     \<exists>d doc s'. db M = Some d \<and>
       find_one d ''post'' [(''_id'', PObjectId (ObjectId L post_id))] s = (Inr (Some doc), s') \<and>
       body = normalize_doc L doc"
  by (auto simp: get_post_def split: prod.splits sum.splits option.splits if_splits)

lemma other_bodies:
  "fst (create_post M p s) = Inr body \<Longrightarrow> map fst body = [''id'']"
  "fst (delete_post L M post_id s) = Inr body \<Longrightarrow> map fst body = [''status'']"
  "fst (test_database M s) = Inr body \<Longrightarrow> map fst body = [''backend'', ''database'', ''collections'']"
  by (auto simp: create_post_def delete_post_def test_database_def Let_def
           split: prod.splits sum.splits option.splits if_splits)

lemmas ex_defs = py_def mem_def mem_db_def down_def down_db_def unconfigured_def doc1_def doc2_def
  oid1_def hex1_def matches_def hexlify_def hexdigit_def hexval_def two_digits_def post_document_def

lemmas model_defs = normalize_doc_def contains_def pop_def get_def is_dict_def
  list_posts_def post_like_def filter_dict_def get_post_def delete_post_def create_post_def
  test_database_def

section \<open>The claims\<close>

subsection \<open>The reserved key\<close>

lemma normalize_doc_id_once:
  assumes "is_dict doc" and "map_of doc ''_id'' = Some v"
  shows "map_of (normalize_doc L doc) ''id'' = Some (PStr (str L v))
         \<and> length (filter (\<lambda>kv. fst kv = ''id'') (normalize_doc L doc)) = 1"
proof
  show id: "map_of (normalize_doc L doc) ''id'' = Some (PStr (str L v))"
    using assms by (rule normalize_doc_id)
  have "''id'' \<in> set (map fst (normalize_doc L doc))"
    using id by (metis contains_def contains_map_of option.distinct(1))
  with is_dict_normalize_doc[OF assms(1), of L]
  show "length (filter (\<lambda>kv. fst kv = ''id'') (normalize_doc L doc)) = 1"
    by (simp add: is_dict_def count_key)
qed

text \<open>
  C1, as the code has it. The reserved key \<^verbatim>\<open>_id\<close> of a stored document never stands,
  under that name, at the top level of a response body. The normalizer removes it from
  every document and, when it was present with value \<open>v\<close>, leaves exactly one field \<^verbatim>\<open>id\<close>,
  holding the string \<^verbatim>\<open>str(v)\<close>. Every body of \<^verbatim>\<open>GET /api/posts/{id}\<close> is the normalized
  form of the document the store found, so it has that \<^verbatim>\<open>id\<close> and no \<^verbatim>\<open>_id\<close>. The objects
  of \<^verbatim>\<open>GET /api/posts\<close> are built from normalized documents and carry the six fields of a
  Post and no other: neither \<^verbatim>\<open>_id\<close> nor \<^verbatim>\<open>id\<close> is among them. The bodies of the other
  handlers have fixed keys, and \<^verbatim>\<open>_id\<close> is none of them. All this is about the keys of the
  body itself: the normalizer does not look inside a value, and a list or a sub-document
  comes out as it went in, with any key \<^verbatim>\<open>_id\<close> it holds.
\<close>

theorem reserved_key_never_exposed:
  "(is_dict doc \<longrightarrow>
      \<not> contains (normalize_doc L doc) ''_id'' \<and>
      (\<forall>v. map_of doc ''_id'' = Some v \<longrightarrow>
         map_of (normalize_doc L doc) ''id'' = Some (PStr (str L v)) \<and>
         length (filter (\<lambda>kv. fst kv = ''id'') (normalize_doc L doc)) = 1))
   \<and> (\<forall>body. fst (list_posts L M q limit s) = Inr body \<longrightarrow>
         (\<forall>obj \<in> set body. \<not> contains obj ''_id'' \<and> \<not> contains obj ''id'' \<and>
            map fst obj = [''title'', ''region'', ''excerpt'', ''date'', ''tags'', ''content'']))
   \<and> (\<forall>body. fst (get_post L M post_id s) = Inr body \<longrightarrow>
         (\<exists>d doc s'. db M = Some d \<and>
            find_one d ''post'' [(''_id'', PObjectId (ObjectId L post_id))] s = (Inr (Some doc), s') \<and>
            body = normalize_doc L doc \<and>
            (is_dict doc \<longrightarrow>
               \<not> contains body ''_id'' \<and>
               (\<forall>v. map_of doc ''_id'' = Some v \<longrightarrow>
                  map_of body ''id'' = Some (PStr (str L v)) \<and>
                  length (filter (\<lambda>kv. fst kv = ''id'') body) = 1))))
   \<and> (is_dict doc \<longrightarrow> k \<noteq> ''_id'' \<longrightarrow> (k = ''id'' \<longrightarrow> \<not> contains doc ''_id'') \<longrightarrow>
        (map_of doc k = Some (PList vs) \<longrightarrow> map_of (normalize_doc L doc) k = Some (PList vs))
        \<and> (map_of doc k = Some (PDict kvs) \<longrightarrow> map_of (normalize_doc L doc) k = Some (PDict kvs)))
   \<and> (\<forall>body. fst (create_post M p s) = Inr body \<longrightarrow> \<not> contains body ''_id'')
   \<and> (\<forall>body. fst (delete_post L M post_id s) = Inr body \<longrightarrow> \<not> contains body ''_id'')
   \<and> (\<forall>body. fst (test_database M s) = Inr body \<longrightarrow> \<not> contains body ''_id'')"
proof (intro conjI)
  show "is_dict doc \<longrightarrow>
      \<not> contains (normalize_doc L doc) ''_id'' \<and>
      (\<forall>v. map_of doc ''_id'' = Some v \<longrightarrow>
         map_of (normalize_doc L doc) ''id'' = Some (PStr (str L v)) \<and>
         length (filter (\<lambda>kv. fst kv = ''id'') (normalize_doc L doc)) = 1)"
    using no_reserved_key normalize_doc_id_once by blast
next
  show "\<forall>body. fst (list_posts L M q limit s) = Inr body \<longrightarrow>
         (\<forall>obj \<in> set body. \<not> contains obj ''_id'' \<and> \<not> contains obj ''id'' \<and>
            map fst obj = [''title'', ''region'', ''excerpt'', ''date'', ''tags'', ''content''])"
  proof (intro allI impI ballI)
    fix body obj assume "fst (list_posts L M q limit s) = Inr body" and "obj \<in> set body"
    then obtain nd where obj: "obj = post_like nd" using list_posts_body by fastforce
    show "\<not> contains obj ''_id'' \<and> \<not> contains obj ''id'' \<and>
            map fst obj = [''title'', ''region'', ''excerpt'', ''date'', ''tags'', ''content'']"
      by (simp add: obj contains_def keys_post_like)
  qed
next
  show "\<forall>body. fst (get_post L M post_id s) = Inr body \<longrightarrow>
         (\<exists>d doc s'. db M = Some d \<and>
            find_one d ''post'' [(''_id'', PObjectId (ObjectId L post_id))] s = (Inr (Some doc), s') \<and>
            body = normalize_doc L doc \<and>
            (is_dict doc \<longrightarrow>
               \<not> contains body ''_id'' \<and>
               (\<forall>v. map_of doc ''_id'' = Some v \<longrightarrow>
                  map_of body ''id'' = Some (PStr (str L v)) \<and>
                  length (filter (\<lambda>kv. fst kv = ''id'') body) = 1)))"
  proof (intro allI impI)
    fix body assume b: "fst (get_post L M post_id s) = Inr body"
    from get_post_body[OF b] obtain d doc s' where g: "db M = Some d"
        "find_one d ''post'' [(''_id'', PObjectId (ObjectId L post_id))] s = (Inr (Some doc), s')"
        "body = normalize_doc L doc"
      by (elim exE conjE)
    have "is_dict doc \<longrightarrow>
               \<not> contains body ''_id'' \<and>
               (\<forall>v. map_of doc ''_id'' = Some v \<longrightarrow>
                  map_of body ''id'' = Some (PStr (str L v)) \<and>
                  length (filter (\<lambda>kv. fst kv = ''id'') body) = 1)"
      unfolding g(3) using no_reserved_key normalize_doc_id_once by blast
    with g show "\<exists>d doc s'. db M = Some d \<and>
            find_one d ''post'' [(''_id'', PObjectId (ObjectId L post_id))] s = (Inr (Some doc), s') \<and>
            body = normalize_doc L doc \<and>
            (is_dict doc \<longrightarrow>
               \<not> contains body ''_id'' \<and>
               (\<forall>v. map_of doc ''_id'' = Some v \<longrightarrow>
                  map_of body ''id'' = Some (PStr (str L v)) \<and>
                  length (filter (\<lambda>kv. fst kv = ''id'') body) = 1))"
      by blast
  qed
next
  show "is_dict doc \<longrightarrow> k \<noteq> ''_id'' \<longrightarrow> (k = ''id'' \<longrightarrow> \<not> contains doc ''_id'') \<longrightarrow>
        (map_of doc k = Some (PList vs) \<longrightarrow> map_of (normalize_doc L doc) k = Some (PList vs))
        \<and> (map_of doc k = Some (PDict kvs) \<longrightarrow> map_of (normalize_doc L doc) k = Some (PDict kvs))"
    by (simp add: normalize_doc_lookup rendered_def)
next
  show "\<forall>body. fst (create_post M p s) = Inr body \<longrightarrow> \<not> contains body ''_id''"
    by (simp add: contains_def other_bodies)
next
  show "\<forall>body. fst (delete_post L M post_id s) = Inr body \<longrightarrow> \<not> contains body ''_id''"
    by (simp add: contains_def other_bodies)
next
  show "\<forall>body. fst (test_database M s) = Inr body \<longrightarrow> \<not> contains body ''_id''"
    by (simp add: contains_def other_bodies)
qed

theorem reserved_key_never_exposed_witness:
  "is_dict doc1
   \<and> \<not> contains (normalize_doc py doc1) ''_id''
   \<and> map_of doc1 ''_id'' = Some (PObjectId oid1)
   \<and> map_of (normalize_doc py doc1) ''id'' = Some (PStr ''65f1a2b3c4d5e6f708091a2b'')
   \<and> length (filter (\<lambda>kv. fst kv = ''id'') (normalize_doc py doc1)) = 1
   \<and> fst (list_posts py mem None 50 ([doc1], 0)) =
        Inr [[(''title'', PStr ''Global Markets Shift''), (''region'', PStr ''Europe''),
              (''excerpt'', PStr []), (''date'', PNone), (''tags'', PList []),
              (''content'', PList [PDict [(''at'', PDatetime (Datetime 2024 3 9 14 5 0 0))]])]]
   \<and> db mem = Some mem_db
   \<and> find_one mem_db ''post'' [(''_id'', PObjectId (ObjectId py hex1))] ([doc1], 0)
        = (Inr (Some doc1), ([doc1], 1))
   \<and> fst (get_post py mem hex1 ([doc1], 0)) =
        Inr [(''title'', PStr ''Global Markets Shift''), (''region'', PStr ''Europe''),
             (''created_at'', PStr ''2024-03-09T14:05:00''),
             (''content'', PList [PDict [(''at'', PDatetime (Datetime 2024 3 9 14 5 0 0))]]),
             (''id'', PStr ''65f1a2b3c4d5e6f708091a2b'')]
   \<and> is_dict doc3 \<and> ''content'' \<noteq> ''_id'' \<and> ''content'' \<noteq> ''id''
   \<and> map_of doc3 ''content'' = Some (PList [PDict [(''_id'', PInt 1), (''text'', PStr ''p'')]])
   \<and> normalize_doc py doc3 =
        [(''content'', PList [PDict [(''_id'', PInt 1), (''text'', PStr ''p'')]]),
         (''id'', PStr ''65f1a2b3c4d5e6f708091a2b'')]"
  using reserved_key_never_exposed[where doc = doc1 and L = py and M = mem and q = None
      and limit = 50 and s = "([doc1], 0)" and post_id = hex1]
    reserved_key_never_exposed[where doc = doc3 and L = py and k = "''content''"
      and vs = "[PDict [(''_id'', PInt 1), (''text'', PStr ''p'')]]"]
  by (simp add: ex_defs model_defs doc3_def)

text \<open>
  The claim C1 as it is written has the renaming in the objects of the list as well: a
  field \<^verbatim>\<open>id\<close> with the string of \<^verbatim>\<open>_id\<close>. A stored document with an \<^verbatim>\<open>_id\<close> comes out of
  \<^verbatim>\<open>GET /api/posts\<close> with no field \<^verbatim>\<open>id\<close>.
\<close>

theorem list_object_without_id_counterexample:
  "map_of doc1 ''_id'' = Some (PObjectId oid1)
   \<and> get_documents mem ''post'' (filter_dict None) 50 ([doc1], 0) = (Inr [doc1], ([doc1], 1))
   \<and> fst (list_posts py mem None 50 ([doc1], 0)) =
        Inr [[(''title'', PStr ''Global Markets Shift''), (''region'', PStr ''Europe''),
              (''excerpt'', PStr []), (''date'', PNone), (''tags'', PList []),
              (''content'', PList [PDict [(''at'', PDatetime (Datetime 2024 3 9 14 5 0 0))]])]]
   \<and> \<not> contains
          [(''title'', PStr ''Global Markets Shift''), (''region'', PStr ''Europe''),
           (''excerpt'', PStr []), (''date'', PNone), (''tags'', PList []),
           (''content'', PList [PDict [(''at'', PDatetime (Datetime 2024 3 9 14 5 0 0))]])]
          ''id''"
  by (simp add: ex_defs model_defs)

subsection \<open>A field named id\<close>

lemma setitem_twice: "setitem (setitem d k v) k v' = setitem d k v'"
  by (induction d) auto

lemma pop_setitem_other:
  "k \<noteq> k' \<Longrightarrow> snd (pop (setitem d k' v) k) = setitem (snd (pop d k)) k' v"
  by (induction d) (auto simp: pop_def)

lemma normalize_doc_ignores_id:
  assumes "is_dict doc" and "contains doc ''_id''"
  shows "normalize_doc L (setitem doc ''id'' w) = normalize_doc L doc"
proof -
  have d: "is_dict (setitem doc ''id'' w)"
    using assms(1) by (auto simp: is_dict_def keys_setitem)
  have c: "contains (setitem doc ''id'' w) ''_id''"
    using assms(2) by (auto simp: contains_def keys_setitem)
  have g: "get (setitem doc ''id'' w) ''_id'' PNone = get doc ''_id'' PNone"
    by (simp add: get_def map_of_setitem)
  show ?thesis
    by (simp add: normalize_closed[OF d] normalize_closed[OF assms(1)] c assms(2) g
        pop_setitem_other setitem_twice)
qed

text \<open>
  C9. A document that has both \<^verbatim>\<open>_id\<close> (with value \<open>v\<close>) and a field \<^verbatim>\<open>id\<close> of its own
  (with value \<open>w\<close>) comes out with \<^verbatim>\<open>id\<close> holding \<^verbatim>\<open>str(v)\<close>, once. The value \<open>w\<close> is
  lost without an error: the result is the same whatever the document held under
  \<^verbatim>\<open>id\<close>.
\<close>

theorem own_id_field_discarded:
  assumes "is_dict doc" and "map_of doc ''_id'' = Some v" and "map_of doc ''id'' = Some w"
  shows "map_of (normalize_doc L doc) ''id'' = Some (PStr (str L v))
         \<and> length (filter (\<lambda>kv. fst kv = ''id'') (normalize_doc L doc)) = 1
         \<and> (\<forall>w'. normalize_doc L (setitem doc ''id'' w') = normalize_doc L doc)"
proof (intro conjI allI)
  show id: "map_of (normalize_doc L doc) ''id'' = Some (PStr (str L v))"
    using assms(1,2) by (rule normalize_doc_id)
  have "''id'' \<in> set (map fst (normalize_doc L doc))"
    using id by (metis contains_def contains_map_of option.distinct(1))
  with is_dict_normalize_doc[OF assms(1), of L]
  show "length (filter (\<lambda>kv. fst kv = ''id'') (normalize_doc L doc)) = 1"
    by (simp add: is_dict_def count_key)
  fix w'
  have "contains doc ''_id''" using assms(2) by (simp add: contains_map_of)
  with assms(1) show "normalize_doc L (setitem doc ''id'' w') = normalize_doc L doc"
    by (rule normalize_doc_ignores_id)
qed

theorem own_id_field_discarded_witness:
  "is_dict doc2 \<and> map_of doc2 ''_id'' = Some (PObjectId oid1) \<and> map_of doc2 ''id'' = Some (PInt 7)
   \<and> normalize_doc py doc2 =
       [(''id'', PStr ''65f1a2b3c4d5e6f708091a2b''), (''date'', PStr ''2023-12-31T23:59:58'')]
   \<and> map_of (normalize_doc py doc2) ''id'' = Some (PStr (str py (PObjectId oid1)))
   \<and> length (filter (\<lambda>kv. fst kv = ''id'') (normalize_doc py doc2)) = 1
   \<and> normalize_doc py (setitem doc2 ''id'' (PStr ''other'')) = normalize_doc py doc2"
  using own_id_field_discarded[where doc = doc2 and L = py and v = "PObjectId oid1" and w = "PInt 7"]
  by (simp add: ex_defs model_defs)

subsection \<open>Timestamps\<close>

text \<open>
  C10. The normalizer renders a timestamp as its ISO string where it is the value of a
  field of the document itself. A list or a sub-document is returned as it is, with any
  timestamp it holds. (The fields in question are those the renaming leaves alone: not
  \<^verbatim>\<open>_id\<close>, and not \<^verbatim>\<open>id\<close> when \<^verbatim>\<open>_id\<close> is present.)
\<close>

theorem timestamps_rendered_at_top_level_only:
  assumes "is_dict doc" and "k \<noteq> ''_id''" and "k = ''id'' \<longrightarrow> \<not> contains doc ''_id''"
  shows "(map_of doc k = Some (PDatetime t) \<longrightarrow>
            map_of (normalize_doc L doc) k = Some (PStr (isoformat L t)))
         \<and> (map_of doc k = Some (PList vs) \<longrightarrow> map_of (normalize_doc L doc) k = Some (PList vs))
         \<and> (map_of doc k = Some (PDict kvs) \<longrightarrow> map_of (normalize_doc L doc) k = Some (PDict kvs))"
  by (simp add: normalize_doc_lookup[OF assms] rendered_def)

theorem timestamps_rendered_at_top_level_only_witness:
  "is_dict doc1 \<and> ''created_at'' \<noteq> ''_id'' \<and> ''created_at'' \<noteq> ''id''
   \<and> ''content'' \<noteq> ''_id'' \<and> ''content'' \<noteq> ''id''
   \<and> map_of doc1 ''created_at'' = Some (PDatetime (Datetime 2024 3 9 14 5 0 0))
   \<and> map_of (normalize_doc py doc1) ''created_at'' = Some (PStr ''2024-03-09T14:05:00'')
   \<and> map_of doc1 ''content'' = Some (PList [PDict [(''at'', PDatetime (Datetime 2024 3 9 14 5 0 0))]])
   \<and> map_of (normalize_doc py doc1) ''content'' =
        Some (PList [PDict [(''at'', PDatetime (Datetime 2024 3 9 14 5 0 0))]])"
  using timestamps_rendered_at_top_level_only[where doc = doc1 and L = py and k = "''created_at''"
      and t = "Datetime 2024 3 9 14 5 0 0"]
    timestamps_rendered_at_top_level_only[where doc = doc1 and L = py and k = "''content''"
      and vs = "[PDict [(''at'', PDatetime (Datetime 2024 3 9 14 5 0 0))]]"]
  by (simp add: ex_defs model_defs)

subsection \<open>The argument of the normalizer\<close>

lemma normalize_loop_ref_update:
  "d < length h \<Longrightarrow> normalize_loop_ref L items d h = h[d := normalize_loop L items (h ! d)]"
proof (induction items arbitrary: h)
  case Nil
  then show ?case by simp
next
  case (Cons p items)
  obtain k v where p: "p = (k, v)" by (cases p)
  show ?case
  proof (cases "\<exists>t. v = PDatetime t")
    case True
    then obtain t where v: "v = PDatetime t" by blast
    have "d < length (h_setitem h d k (PStr (isoformat L t)))"
      using Cons.prems by (simp add: h_setitem_def)
    from Cons.IH[OF this] show ?thesis
      using Cons.prems by (simp add: p v h_setitem_def)
  next
    case False
    then show ?thesis using Cons p by (cases v) auto
  qed
qed

lemma normalize_ref_Some:
  assumes "a < length h"
  shows "normalize_ref L (Some a) h =
           (if h ! a = [] then (Some a, h) else (Some (length h), h @ [normalize_doc L (h ! a)]))"
proof (cases "h ! a = []")
  case True
  then show ?thesis by (simp add: normalize_ref_def)
next
  case False
  then show ?thesis
    by (simp add: normalize_ref_def normalize_doc_def Let_def h_pop_def h_setitem_def
        normalize_loop_ref_update split: prod.splits)
qed

text \<open>
  C8. The normalizer does not write to its argument. Called on \<^verbatim>\<open>None\<close> or on an empty
  dictionary it returns the very reference it was given and changes nothing. Called on any
  other dictionary it returns a reference to a new object, which holds the normalized
  document, and every object that existed before the call, the argument among them,
  holds the items it held before.
\<close>

theorem normalizer_leaves_input_unchanged:
  "normalize_ref L None h = (None, h)
   \<and> (a < length h \<longrightarrow>
        (case normalize_ref L (Some a) h of
           (r, h') \<Rightarrow>
             take (length h) h' = h \<and> h' ! a = h ! a
             \<and> (if h ! a = [] then r = Some a \<and> h' = h
                else r = Some (length h) \<and> h' = h @ [normalize_doc L (h ! a)])))"
  by (simp add: normalize_ref_Some nth_append) (simp add: normalize_ref_def)

theorem normalizer_leaves_input_unchanged_witness:
  "(0::nat) < length [doc1, []]
   \<and> normalize_ref py (Some 0) [doc1, []] = (Some 2, [doc1, [], normalize_doc py doc1])
   \<and> (1::nat) < length [doc1, []]
   \<and> normalize_ref py (Some 1) [doc1, []] = (Some 1, [doc1, []])
   \<and> normalize_ref py None [doc1, []] = (None, [doc1, []])"
  using normalizer_leaves_input_unchanged[where L = py and h = "[doc1, []]" and a = 0]
    normalizer_leaves_input_unchanged[where L = py and h = "[doc1, []]" and a = 1]
  by (auto simp: doc1_def split: prod.splits)

subsection \<open>The search filter\<close>











subsection \<open>The list of posts\<close>

lemma post_like_stored:
  assumes "is_dict doc"
  shows "post_like (normalize_doc L doc) =
           [(''title'', stored_field L doc ''title'' (PStr [])),
            (''region'', stored_field L doc ''region'' (PStr [])),
            (''excerpt'', stored_field L doc ''excerpt'' (PStr [])),
            (''date'', stored_field L doc ''date'' PNone),
            (''tags'', stored_field L doc ''tags'' (PList [])),
            (''content'', stored_field L doc ''content'' (PList []))]"
  by (simp add: post_like_def get_def stored_field_def normalize_doc_lookup[OF assms]
      split: option.splits)

text \<open>
  C3, as the code has it. \<^verbatim>\<open>GET /api/posts\<close> returns one object for each document the
  store returned, in the same order, and the empty list for no document. Each object has
  the six fields of a Post. A field the document lacks is \<^verbatim>\<open>""\<close> for \<^verbatim>\<open>title\<close>, \<^verbatim>\<open>region\<close>
  and \<^verbatim>\<open>excerpt\<close>, the empty list for \<^verbatim>\<open>tags\<close> and \<^verbatim>\<open>content\<close>, and \<^verbatim>\<open>None\<close> for \<^verbatim>\<open>date\<close>.
  A field the document has is shown as the normalizer leaves it: a timestamp as its ISO
  string, any other value unchanged. This holds for \<^verbatim>\<open>date\<close> as for the five others.
\<close>

theorem list_posts_projection:
  "(get_documents M ''post'' (filter_dict q) limit s = (Inr docs, s') \<longrightarrow>
      list_posts L M q limit s = (Inr (map (\<lambda>doc. post_like (normalize_doc L doc)) docs), s'))
   \<and> (get_documents M ''post'' (filter_dict q) limit s = (Inr [], s') \<longrightarrow>
        list_posts L M q limit s = (Inr [], s'))
   \<and> (is_dict doc \<longrightarrow>
        post_like (normalize_doc L doc) =
          [(''title'', stored_field L doc ''title'' (PStr [])),
           (''region'', stored_field L doc ''region'' (PStr [])),
           (''excerpt'', stored_field L doc ''excerpt'' (PStr [])),
           (''date'', stored_field L doc ''date'' PNone),
           (''tags'', stored_field L doc ''tags'' (PList [])),
           (''content'', stored_field L doc ''content'' (PList []))])
   \<and> (map_of doc k = None \<longrightarrow> stored_field L doc k dflt = dflt)
   \<and> (map_of doc k = Some (PDatetime t) \<longrightarrow> stored_field L doc k dflt = PStr (isoformat L t))
   \<and> (map_of doc k = Some v \<longrightarrow> (\<forall>t. v \<noteq> PDatetime t) \<longrightarrow> stored_field L doc k dflt = v)"
proof (intro conjI impI)
  assume "get_documents M ''post'' (filter_dict q) limit s = (Inr docs, s')"
  then show "list_posts L M q limit s = (Inr (map (\<lambda>doc. post_like (normalize_doc L doc)) docs), s')"
    by (simp add: list_posts_def list_posts_loop_map)
next
  assume "get_documents M ''post'' (filter_dict q) limit s = (Inr [], s')"
  then show "list_posts L M q limit s = (Inr [], s')"
    by (simp add: list_posts_def)
next
  assume "is_dict doc"
  then show "post_like (normalize_doc L doc) =
          [(''title'', stored_field L doc ''title'' (PStr [])),
           (''region'', stored_field L doc ''region'' (PStr [])),
           (''excerpt'', stored_field L doc ''excerpt'' (PStr [])),
           (''date'', stored_field L doc ''date'' PNone),
           (''tags'', stored_field L doc ''tags'' (PList [])),
           (''content'', stored_field L doc ''content'' (PList []))]"
    by (rule post_like_stored)
next
  assume "map_of doc k = None"
  then show "stored_field L doc k dflt = dflt" by (simp add: stored_field_def)
next
  assume "map_of doc k = Some (PDatetime t)"
  then show "stored_field L doc k dflt = PStr (isoformat L t)"
    by (simp add: stored_field_def rendered_def)
next
  assume "map_of doc k = Some v" "\<forall>t. v \<noteq> PDatetime t"
  then show "stored_field L doc k dflt = v"
    by (cases v) (auto simp: stored_field_def rendered_def)
qed

theorem list_posts_projection_witness:
  "get_documents mem ''post'' (filter_dict None) 50 ([doc1, doc2], 0)
     = (Inr [doc1, doc2], ([doc1, doc2], 1))
   \<and> list_posts py mem None 50 ([doc1, doc2], 0) =
       (Inr [[(''title'', PStr ''Global Markets Shift''), (''region'', PStr ''Europe''),
              (''excerpt'', PStr []), (''date'', PNone), (''tags'', PList []),
              (''content'', PList [PDict [(''at'', PDatetime (Datetime 2024 3 9 14 5 0 0))]])],
             [(''title'', PStr []), (''region'', PStr []), (''excerpt'', PStr []),
              (''date'', PStr ''2023-12-31T23:59:58''), (''tags'', PList []),
              (''content'', PList [])]],
        ([doc1, doc2], 1))
   \<and> get_documents mem ''post'' (filter_dict None) 50 ([], 0) = (Inr [], ([], 1))
   \<and> list_posts py mem None 50 ([], 0) = (Inr [], ([], 1))
   \<and> is_dict doc2
   \<and> map_of doc2 ''tags'' = None \<and> stored_field py doc2 ''tags'' (PList []) = PList []
   \<and> map_of doc2 ''date'' = Some (PDatetime (Datetime 2023 12 31 23 59 58 0))
   \<and> stored_field py doc2 ''date'' PNone = PStr ''2023-12-31T23:59:58''
   \<and> map_of doc1 ''title'' = Some (PStr ''Global Markets Shift'')
   \<and> stored_field py doc1 ''title'' (PStr []) = PStr ''Global Markets Shift''"
  using list_posts_projection[where L = py and M = mem and q = None and limit = 50
      and s = "([doc1, doc2], 0)" and docs = "[doc1, doc2]" and s' = "([doc1, doc2], 1)"
      and doc = doc2 and k = "''date''" and dflt = PNone and t = "Datetime 2023 12 31 23 59 58 0"]
    list_posts_projection[where L = py and M = mem and q = None and limit = 50
      and s = "([], 0)" and s' = "([], 1)" and doc = doc2 and k = "''tags''" and dflt = "PList []"]
    list_posts_projection[where L = py and doc = doc1 and k = "''title''" and dflt = "PStr []"
      and v = "PStr ''Global Markets Shift''"]
  by (simp add: ex_defs model_defs stored_field_def rendered_def)

text \<open>
  The claim C3 as it is written has the stored \<^verbatim>\<open>date\<close> in the response unchanged. For a
  document whose \<^verbatim>\<open>date\<close> is a timestamp the response has a string instead.
\<close>

theorem date_as_is_counterexample:
  "get_documents mem ''post'' (filter_dict None) 50 ([doc2], 0) = (Inr [doc2], ([doc2], 1))
   \<and> get doc2 ''date'' PNone = PDatetime (Datetime 2023 12 31 23 59 58 0)
   \<and> fst (list_posts py mem None 50 ([doc2], 0)) =
       Inr [[(''title'', PStr []), (''region'', PStr []), (''excerpt'', PStr []),
             (''date'', PStr ''2023-12-31T23:59:58''), (''tags'', PList []),
             (''content'', PList [])]]
   \<and> PStr ''2023-12-31T23:59:58'' \<noteq> get doc2 ''date'' PNone"
  by (simp add: ex_defs model_defs)

subsection \<open>One post\<close>

lemma keys_kept:
  assumes "is_dict doc" and "contains doc k" and "k \<noteq> ''_id''"
  shows "contains (normalize_doc L doc) k"
  using assms(2,3)
  by (auto simp: contains_def[of "normalize_doc L doc"] keys_normalize_doc[OF assms(1)]
      keys_setitem keys_pop contains_def)

text \<open>
  C4. \<^verbatim>\<open>GET /api/posts/{id}\<close>. An identifier that \<^verbatim>\<open>ObjectId.is_valid\<close> rejects gives 400, and
  the store is not called: the answer is the same for every store, configured or not, and
  the state of the store is the one before the request. For an identifier that is
  accepted, a lookup that finds nothing gives 404, and a lookup that finds a document gives
  200 with the normalized document, which has every field of the stored one but \<^verbatim>\<open>_id\<close>.
  (A document found by its \<^verbatim>\<open>_id\<close> has that field, so it is not empty.)
\<close>

theorem get_post_responses:
  "(\<not> is_valid L post_id \<longrightarrow>
      get_post L M post_id s = (Inl (HTTPException 400 ''Invalid id''), s))
   \<and> (is_valid L post_id \<longrightarrow> db M = Some d \<longrightarrow>
        find_one d ''post'' [(''_id'', PObjectId (ObjectId L post_id))] s = (Inr None, s') \<longrightarrow>
        get_post L M post_id s = (Inl (HTTPException 404 ''Not found''), s'))
   \<and> (is_valid L post_id \<longrightarrow> db M = Some d \<longrightarrow>
        find_one d ''post'' [(''_id'', PObjectId (ObjectId L post_id))] s = (Inr (Some doc), s') \<longrightarrow>
        doc \<noteq> [] \<longrightarrow>
        get_post L M post_id s = (Inr (normalize_doc L doc), s')
        \<and> status_code (fst (get_post L M post_id s)) = 200
        \<and> (is_dict doc \<longrightarrow>
             (\<forall>k. contains doc k \<longrightarrow> k \<noteq> ''_id'' \<longrightarrow> contains (normalize_doc L doc) k)))"
  by (auto simp: get_post_def keys_kept)

theorem get_post_responses_witness:
  "\<not> is_valid py ''not-an-id''
   \<and> get_post py mem ''not-an-id'' ([doc1], 0) = (Inl (HTTPException 400 ''Invalid id''), ([doc1], 0))
   \<and> get_post py down ''not-an-id'' ([doc1], 0) = (Inl (HTTPException 400 ''Invalid id''), ([doc1], 0))
   \<and> is_valid py hex1 \<and> db mem = Some mem_db
   \<and> find_one mem_db ''post'' [(''_id'', PObjectId (ObjectId py hex1))] ([], 0) = (Inr None, ([], 1))
   \<and> get_post py mem hex1 ([], 0) = (Inl (HTTPException 404 ''Not found''), ([], 1))
   \<and> find_one mem_db ''post'' [(''_id'', PObjectId (ObjectId py hex1))] ([doc1], 0)
        = (Inr (Some doc1), ([doc1], 1))
   \<and> doc1 \<noteq> [] \<and> is_dict doc1
   \<and> get_post py mem hex1 ([doc1], 0) =
        (Inr [(''title'', PStr ''Global Markets Shift''), (''region'', PStr ''Europe''),
              (''created_at'', PStr ''2024-03-09T14:05:00''),
              (''content'', PList [PDict [(''at'', PDatetime (Datetime 2024 3 9 14 5 0 0))]]),
              (''id'', PStr ''65f1a2b3c4d5e6f708091a2b'')],
         ([doc1], 1))
   \<and> contains doc1 ''created_at'' \<and> contains (normalize_doc py doc1) ''created_at''"
  using get_post_responses[where L = py and M = mem and post_id = "''not-an-id''" and s = "([doc1], 0)"]
    get_post_responses[where L = py and M = down and post_id = "''not-an-id''" and s = "([doc1], 0)"]
    get_post_responses[where L = py and M = mem and post_id = hex1 and s = "([], 0)"
      and d = mem_db and s' = "([], 1)"]
    get_post_responses[where L = py and M = mem and post_id = hex1 and s = "([doc1], 0)"
      and d = mem_db and s' = "([doc1], 1)" and doc = doc1]
  by (simp add: ex_defs model_defs)

subsection \<open>Deleting a post\<close>

text \<open>
  C5. \<^verbatim>\<open>DELETE /api/posts/{id}\<close>. An identifier that \<^verbatim>\<open>ObjectId.is_valid\<close> rejects gives 400.
  For one that is accepted, a delete that removed no document gives 404, and a delete that
  removed one gives 200 with the body \<^verbatim>\<open>{"status": "deleted"}\<close>.
\<close>

theorem delete_post_responses:
  "(\<not> is_valid L post_id \<longrightarrow>
      delete_post L M post_id s = (Inl (HTTPException 400 ''Invalid id''), s))
   \<and> (is_valid L post_id \<longrightarrow> db M = Some d \<longrightarrow>
        delete_one d ''post'' [(''_id'', PObjectId (ObjectId L post_id))] s = (Inr 0, s') \<longrightarrow>
        delete_post L M post_id s = (Inl (HTTPException 404 ''Not found''), s')
        \<and> status_code (fst (delete_post L M post_id s)) = 404)
   \<and> (is_valid L post_id \<longrightarrow> db M = Some d \<longrightarrow>
        delete_one d ''post'' [(''_id'', PObjectId (ObjectId L post_id))] s = (Inr n, s') \<longrightarrow>
        0 < n \<longrightarrow>
        delete_post L M post_id s = (Inr [(''status'', PStr ''deleted'')], s')
        \<and> status_code (fst (delete_post L M post_id s)) = 200)"
  by (auto simp: delete_post_def)

theorem delete_post_responses_witness:
  "\<not> is_valid py ''not-an-id''
   \<and> delete_post py mem ''not-an-id'' ([doc1], 0) = (Inl (HTTPException 400 ''Invalid id''), ([doc1], 0))
   \<and> is_valid py hex1 \<and> db mem = Some mem_db
   \<and> delete_one mem_db ''post'' [(''_id'', PObjectId (ObjectId py hex1))] ([], 0) = (Inr 0, ([], 1))
   \<and> delete_post py mem hex1 ([], 0) = (Inl (HTTPException 404 ''Not found''), ([], 1))
   \<and> delete_one mem_db ''post'' [(''_id'', PObjectId (ObjectId py hex1))] ([doc1], 0) = (Inr 1, ([], 1))
   \<and> (0::nat) < 1
   \<and> delete_post py mem hex1 ([doc1], 0) = (Inr [(''status'', PStr ''deleted'')], ([], 1))
   \<and> delete_post py mem hex1 ([], 1) = (Inl (HTTPException 404 ''Not found''), ([], 2))"
  using delete_post_responses[where L = py and M = mem and post_id = "''not-an-id''" and s = "([doc1], 0)"]
    delete_post_responses[where L = py and M = mem and post_id = hex1 and s = "([], 0)"
      and d = mem_db and s' = "([], 1)"]
    delete_post_responses[where L = py and M = mem and post_id = hex1 and s = "([doc1], 0)"
      and d = mem_db and s' = "([], 1)" and n = 1]
  by (simp add: ex_defs model_defs)

subsection \<open>Creating a post\<close>

text \<open>
  C6. \<^verbatim>\<open>POST /api/posts\<close>. When \<^verbatim>\<open>create_document\<close> returns the new identifier, the body is
  \<^verbatim>\<open>{"id": identifier}\<close>. When it raises, the response is 500 and its detail is the message
  of the exception.
\<close>

theorem create_post_responses:
  "(create_document M ''post'' p s = (Inr new_id, s') \<longrightarrow>
      create_post M p s = (Inr [(''id'', PStr new_id)], s'))
   \<and> (create_document M ''post'' p s = (Inl e, s') \<longrightarrow>
        create_post M p s = (Inl (HTTPException 500 e), s')
        \<and> status_code (fst (create_post M p s)) = 500)"
  by (simp add: create_post_def)

theorem create_post_responses_witness:
  "create_document mem ''post''
       \<lparr>title = ''T'', region = ''R'', excerpt = ''E'', date = None, tags = [], content = []\<rparr> ([], 3)
     = (Inr ''000000000000000000000003'',
        ([post_document 3 \<lparr>title = ''T'', region = ''R'', excerpt = ''E'', date = None,
                            tags = [], content = []\<rparr>], 4))
   \<and> create_post mem
       \<lparr>title = ''T'', region = ''R'', excerpt = ''E'', date = None, tags = [], content = []\<rparr> ([], 3)
     = (Inr [(''id'', PStr ''000000000000000000000003'')],
        ([post_document 3 \<lparr>title = ''T'', region = ''R'', excerpt = ''E'', date = None,
                            tags = [], content = []\<rparr>], 4))
   \<and> create_document down ''post''
       \<lparr>title = ''T'', region = ''R'', excerpt = ''E'', date = None, tags = [], content = []\<rparr> ([], 3)
     = (Inl ''connection refused'', ([], 4))
   \<and> create_post down
       \<lparr>title = ''T'', region = ''R'', excerpt = ''E'', date = None, tags = [], content = []\<rparr> ([], 3)
     = (Inl (HTTPException 500 ''connection refused''), ([], 4))"
  using create_post_responses[where M = mem and s = "([], 3)"
      and p = "\<lparr>title = ''T'', region = ''R'', excerpt = ''E'', date = None, tags = [], content = []\<rparr>"
      and new_id = "''000000000000000000000003''"
      and s' = "([post_document 3 \<lparr>title = ''T'', region = ''R'', excerpt = ''E'', date = None,
                            tags = [], content = []\<rparr>], 4)"]
    create_post_responses[where M = down and s = "([], 3)"
      and p = "\<lparr>title = ''T'', region = ''R'', excerpt = ''E'', date = None, tags = [], content = []\<rparr>"
      and e = "''connection refused''" and s' = "([], 4)"]
  by (simp add: mem_def down_def hexlify_def hexdigit_def create_post_def)

subsection \<open>The diagnostic\<close>

text \<open>
  C7. \<^verbatim>\<open>GET /test\<close> always returns a body, never raises. With no store handle the body
  says \<^verbatim>\<open>Not Configured\<close>, and the answer and the state are the same whatever the module
  offers. When \<^verbatim>\<open>list_collection_names\<close> raises, the body carries the first 80 characters
  of the message and no collection. When it returns, the body carries the first 10 names.
\<close>

theorem test_database_responses:
  "(\<exists>body. fst (test_database M s) = Inr body)
   \<and> status_code (fst (test_database M s)) = 200
   \<and> (db M = None \<longrightarrow>
        test_database M s =
          (Inr [(''backend'', PStr (check_mark @ '' Running'')),
                (''database'', PStr (cross_mark @ '' Not Configured'')),
                (''collections'', PList [])], s))
   \<and> (db M = Some d \<longrightarrow> list_collection_names d s = (Inl e, s') \<longrightarrow>
        test_database M s =
          (Inr [(''backend'', PStr (check_mark @ '' Running'')),
                (''database'', PStr (warning_sign @ '' Connected but error: '' @ take 80 e)),
                (''collections'', PList [])], s')
        \<and> length (take 80 e) \<le> 80)
   \<and> (db M = Some d \<longrightarrow> list_collection_names d s = (Inr names, s') \<longrightarrow>
        test_database M s =
          (Inr [(''backend'', PStr (check_mark @ '' Running'')),
                (''database'', PStr (check_mark @ '' Connected'')),
                (''collections'', PList (map PStr (take 10 names)))], s')
        \<and> length (take 10 names) \<le> 10)"
  by (auto simp: test_database_def Let_def split: option.splits prod.splits sum.splits)

theorem test_database_responses_witness:
  "db unconfigured = None
   \<and> test_database unconfigured ([doc1], 0) =
       (Inr [(''backend'', PStr (check_mark @ '' Running'')),
             (''database'', PStr (cross_mark @ '' Not Configured'')),
             (''collections'', PList [])], ([doc1], 0))
   \<and> db down = Some down_db
   \<and> list_collection_names down_db ([doc1], 0) = (Inl ''connection refused'', ([doc1], 1))
   \<and> test_database down ([doc1], 0) =
       (Inr [(''backend'', PStr (check_mark @ '' Running'')),
             (''database'', PStr (warning_sign @ '' Connected but error: connection refused'')),
             (''collections'', PList [])], ([doc1], 1))
   \<and> db mem = Some mem_db
   \<and> list_collection_names mem_db ([doc1], 0) = (Inr [''post''], ([doc1], 1))
   \<and> test_database mem ([doc1], 0) =
       (Inr [(''backend'', PStr (check_mark @ '' Running'')),
             (''database'', PStr (check_mark @ '' Connected'')),
             (''collections'', PList [PStr ''post''])], ([doc1], 1))"
  using test_database_responses[where M = unconfigured and s = "([doc1], 0)"]
    test_database_responses[where M = down and s = "([doc1], 0)" and d = down_db
      and e = "''connection refused''" and s' = "([doc1], 1)"]
    test_database_responses[where M = mem and s = "([doc1], 0)" and d = mem_db
      and names = "[''post'']" and s' = "([doc1], 1)"]
  by (simp add: unconfigured_def down_def down_db_def mem_def mem_db_def test_database_def)

end
